theory Spec2Isabelle
  imports Main
begin

section \<open>Data model of \<open>getCollectionGqlType.ts\<close>\<close>

text \<open>
  JavaScript objects are compared by reference (\<open>===\<close>).  A collection and a build
  token are therefore passed around as addresses; the objects themselves live in a store
  that maps an address to the object's content.
\<close>

type_synonym cref = nat \<comment> \<open>address of a \<open>Collection\<close> object\<close>
type_synonym tref = nat \<comment> \<open>address of a \<open>BuildToken\<close> object\<close>
type_synonym gref = nat \<comment> \<open>address of a \<open>GraphQLObjectType\<close> object\<close>

text \<open>
  Run-time values (\<open>mixed\<close>).  An \<open>ObjectType.Value\<close> is a \<open>Map<string, mixed>\<close>;
  the \<open>node\<close> field may have stored the collection the value came from under the
  symbol \<open>$$nodeValueCollection\<close>: the first argument of \<open>JObject\<close>
  (\<open>None\<close> when the property is absent or undefined).
\<close>

datatype jsvalue =
    JUndefined
  | JNull
  | JBoolean bool
  | JNumber int
  | JString string
  | JObject "cref option" "string \<Rightarrow> jsvalue option"

datatype error = TypeError

text \<open>Types of the \<open>graphql\<close> library, as far as this file builds them.\<close>

datatype gql_type =
    GraphQLID
  | GraphQLNonNull gql_type
  | GraphQLNamed string

datatype gql_interface = GraphQLInterface string

datatype sem_type = SemType string \<comment> \<open>a \<open>Type\<close> of the interface, opaque here\<close>

datatype paginator = Paginator string \<comment> \<open>opaque here\<close>

record object_field = \<comment> \<open>\<open>ObjectType.Field\<close>\<close>
  fieldDescription :: "string option"
  fieldType :: sem_type

record object_type = \<comment> \<open>\<open>ObjectType\<close>\<close>
  typeName :: string
  typeFields :: "(string \<times> object_field) list" \<comment> \<open>\<open>type.fields.entries()\<close>, in order\<close>
  typeIsTypeOf :: "jsvalue \<Rightarrow> bool"

record collection_key =
  keyCollection :: cref
  keyName :: string

record collection =
  collectionName :: string
  collectionDescription :: "string option"
  collectionType :: object_type
  primaryKey :: "collection_key option"
  collectionPaginator :: "paginator option"

text \<open>
  Modelled from the spec: the \<open>Condition\<close> of the interface is not in the source
  file.  The spec calls it an opaque filter predicate value composable via logical AND: a
  predicate on values.
\<close>

type_synonym condition = "jsvalue \<Rightarrow> bool"

text \<open>
  Modelled from the spec: the neutral (empty) condition, which an absent \<open>condition\<close>
  argument stands for; it is not in the source file.
\<close>

definition conditionTrue :: condition where
  "conditionTrue = (\<lambda>v. True)"

text \<open>
  Modelled from the spec: \<open>conditionHelpers.and\<close> is not in the source file.  The spec
  has it as the logical AND of two conditions, with the neutral condition as identity.
\<close>

definition conditionHelpers_and :: "condition \<Rightarrow> condition \<Rightarrow> condition" where
  "conditionHelpers_and a b = (\<lambda>v. a v \<and> b v)"

record relation =
  relationName :: string
  headCollectionKey :: collection_key
  tailCollection :: cref
  getTailConditionFromHeadValue :: "(jsvalue \<Rightarrow> condition) option"

record arg_config = \<comment> \<open>\<open>GraphQLArgumentConfig\<close>\<close>
  argDescription :: string
  argType :: gql_type

type_synonym condition_input = "string \<Rightarrow> jsvalue option"

record connection_args =
  condition :: "condition_input option" \<comment> \<open>\<open>args.condition\<close>, optional\<close>

record field_config = \<comment> \<open>\<open>GraphQLFieldConfig\<close>\<close>
  description :: "string option"
  gqlType :: gql_type
  args :: "(string \<times> arg_config) list" \<comment> \<open>empty in the literals of this file\<close>
  resolve :: "jsvalue \<Rightarrow> error + jsvalue"

type_synonym field_entry = "string \<times> field_config"

record connection_config =
  inputArgEntries :: "(string \<times> arg_config) list"
  getPaginatorInput :: "jsvalue \<Rightarrow> connection_args \<Rightarrow> condition"

record options =
  nodeIdFieldName :: string

record build_token =
  tokenOptions :: options
  getRelations :: "relation list" \<comment> \<open>\<open>inventory.getRelations()\<close>\<close>
  objectTypeFieldEntries :: "(object_type \<Rightarrow> tref \<Rightarrow> field_entry list) option"
    \<comment> \<open>\<open>_hooks.objectTypeFieldEntries\<close>\<close>

record store =
  collections :: "cref \<Rightarrow> collection"
  tokens :: "tref \<Rightarrow> build_token"

text \<open>
  The functions this file imports and whose code is not part of it.  They are parameters
  of the model: every theorem holds for each choice of them.
\<close>

record collab =
  formatName_type :: "string \<Rightarrow> string"
  formatName_field :: "string \<Rightarrow> string"
  idSerde_serialize :: "cref \<Rightarrow> jsvalue \<Rightarrow> string"
  getNodeInterfaceType :: "tref \<Rightarrow> gql_interface"
  getGqlType :: "tref \<Rightarrow> sem_type \<Rightarrow> bool \<Rightarrow> gql_type"
  createConnectionGqlField :: "tref \<Rightarrow> paginator \<Rightarrow> connection_config \<Rightarrow> field_config"
  createCollectionRelationTailGqlFieldEntries :: "tref \<Rightarrow> cref \<Rightarrow> field_entry list"
  conditionGqlType :: "tref \<Rightarrow> object_type \<Rightarrow> gql_type"
  conditionFromInput :: "tref \<Rightarrow> object_type \<Rightarrow> condition_input \<Rightarrow> condition"

record condition_gql_type = \<comment> \<open>what \<open>getConditionGqlType\<close> returns\<close>
  gqlConditionType :: gql_type
  fromGqlInput :: "condition_input option \<Rightarrow> condition"

text \<open>
  Modelled from the spec: \<open>getConditionGqlType\<close> is not in the source file.  The spec
  gives it as \<open>resolveConditionType(context, entityType) -> { type, fromInput }\<close> with
  an absent argument parsed to the neutral condition.
\<close>

definition getConditionGqlType :: "collab \<Rightarrow> tref \<Rightarrow> object_type \<Rightarrow> condition_gql_type" where
  "getConditionGqlType E buildToken ty =
     \<lparr> gqlConditionType = conditionGqlType E buildToken ty,
       fromGqlInput = (\<lambda>input. case input of
                          None \<Rightarrow> conditionTrue
                        | Some i \<Rightarrow> conditionFromInput E buildToken ty i) \<rparr>"

text \<open>
  Modelled from the spec: \<open>buildObject\<close> is not in the source file.  The spec has the
  field list as the concatenation of the streams it is given, in their order; an absent
  entry (\<open>null\<close>, \<open>false\<close>) contributes nothing.
\<close>

definition buildObject :: "(string \<times> 'a) option list list \<Rightarrow> (string \<times> 'a) list" where
  "buildObject entriess = List.map_filter (\<lambda>entry. entry) (concat entriess)"

record gql_object_type = \<comment> \<open>the configuration given to \<open>new GraphQLObjectType\<close>\<close>
  name :: string
  typeDescription :: "string option"
  isTypeOf :: "jsvalue \<Rightarrow> error + bool"
  interfaces :: "gql_interface list"
  fieldsThunk :: "unit \<Rightarrow> field_entry list" \<comment> \<open>\<open>fields\<close>, a thunk\<close>

section \<open>\<open>createCollectionGqlType\<close>\<close>

text \<open>
  \<open>value[$$nodeValueCollection]\<close>: reading a property of \<open>null\<close> or \<open>undefined\<close>
  throws a TypeError; a primitive has no such property.
\<close>

definition nodeValueCollection :: "jsvalue \<Rightarrow> error + cref option" where
  "nodeValueCollection v =
     (case v of
        JUndefined \<Rightarrow> Inl TypeError
      | JNull \<Rightarrow> Inl TypeError
      | JObject tag _ \<Rightarrow> Inr tag
      | _ \<Rightarrow> Inr None)"

text \<open>
  Lines 43 to 47.  The conditional expression:
  \<open>value != null && typeof value[$$nodeValueCollection] !== 'undefined'
     ? value[$$nodeValueCollection] === collection : true\<close>.
\<close>

definition nodeValueCollectionCheck :: "cref \<Rightarrow> jsvalue \<Rightarrow> error + bool" where
  "nodeValueCollectionCheck collection v =
     (if v \<noteq> JNull \<and> v \<noteq> JUndefined then
        (case nodeValueCollection v of
           Inl e \<Rightarrow> Inl e
         | Inr None \<Rightarrow> Inr True
         | Inr (Some c) \<Rightarrow> Inr (c = collection))
      else Inr True)"

definition collectionIsTypeOf :: "store \<Rightarrow> cref \<Rightarrow> jsvalue \<Rightarrow> error + bool" where
  "collectionIsTypeOf S collection v =
     (case nodeValueCollectionCheck collection v of
        Inl e \<Rightarrow> Inl e
      | Inr ok \<Rightarrow> Inr (ok \<and> typeIsTypeOf (collectionType (collections S collection)) v))"

text \<open>Lines 57 to 63: the id field, present when there is a primary key.\<close>

definition idFieldEntry :: "collab \<Rightarrow> store \<Rightarrow> tref \<Rightarrow> cref \<Rightarrow> field_entry option" where
  "idFieldEntry E S buildToken collection =
     (case primaryKey (collections S collection) of
        None \<Rightarrow> None
      | Some _ \<Rightarrow>
          Some (nodeIdFieldName (tokenOptions (tokens S buildToken)),
            \<lparr> description = Some ''A globally unique identifier. Can be used in various places throughout the system to identify this single value.'',
              gqlType = GraphQLNonNull GraphQLID,
              args = [],
              resolve = (\<lambda>v. Inr (JString (idSerde_serialize E collection v))) \<rparr>))"

text \<open>\<open>value.get(fieldName)\<close> on a \<open>Map\<close>; a missing key gives \<open>undefined\<close>.\<close>

definition valueGet :: "jsvalue \<Rightarrow> string \<Rightarrow> error + jsvalue" where
  "valueGet v fieldName =
     (case v of
        JObject _ m \<Rightarrow> (case m fieldName of None \<Rightarrow> Inr JUndefined | Some x \<Rightarrow> Inr x)
      | _ \<Rightarrow> Inl TypeError)"

text \<open>Lines 66 to 79: one entry per field of the collection's type.\<close>

definition basicFieldEntry :: "collab \<Rightarrow> tref \<Rightarrow> string \<times> object_field \<Rightarrow> field_entry" where
  "basicFieldEntry E buildToken entry =
     (case entry of (fieldName, field) \<Rightarrow>
        (formatName_field E fieldName,
         \<lparr> description = fieldDescription field,
           gqlType = getGqlType E buildToken (fieldType field) False,
           args = [],
           resolve = (\<lambda>v. valueGet v fieldName) \<rparr>))"

definition basicFieldEntries :: "collab \<Rightarrow> store \<Rightarrow> tref \<Rightarrow> cref \<Rightarrow> field_entry list" where
  "basicFieldEntries E S buildToken collection =
     map (basicFieldEntry E buildToken) (typeFields (collectionType (collections S collection)))"

text \<open>Lines 82 to 84: the fields of the hook, when there is one.\<close>

definition hookFieldEntries :: "store \<Rightarrow> tref \<Rightarrow> cref \<Rightarrow> field_entry list" where
  "hookFieldEntries S buildToken collection =
     (case objectTypeFieldEntries (tokens S buildToken) of
        Some hook \<Rightarrow> hook (collectionType (collections S collection)) buildToken
      | None \<Rightarrow> [])"

text \<open>
  Lines 108 to 123: the configuration given to \<open>createConnectionGqlField\<close>, with the
  one input argument \<open>condition\<close> and the paginator input.
\<close>

definition headConnectionConfig ::
  "collab \<Rightarrow> tref \<Rightarrow> object_type \<Rightarrow> (jsvalue \<Rightarrow> condition) \<Rightarrow> connection_config" where
  "headConnectionConfig E buildToken tailType getCondition =
     (let ct = getConditionGqlType E buildToken tailType in
      \<lparr> inputArgEntries =
          [(''condition'',
            \<lparr> argDescription = ''A condition to be used in determining which values should be returned by the collection.'',
              argType = gqlConditionType ct \<rparr>)],
        getPaginatorInput = (\<lambda>headValue a.
          conditionHelpers_and (getCondition headValue) (fromGqlInput ct (condition a))) \<rparr>)"

text \<open>Lines 95 to 125: the field of one head relation, or \<open>null\<close>.\<close>

definition headRelationEntry :: "collab \<Rightarrow> store \<Rightarrow> tref \<Rightarrow> relation \<Rightarrow> field_entry option" where
  "headRelationEntry E S buildToken relation =
     (let tailColl = collections S (tailCollection relation);
          tailPaginator = collectionPaginator tailColl
      in case tailPaginator of
           None \<Rightarrow> None
         | Some pag \<Rightarrow>
            (case getTailConditionFromHeadValue relation of
               None \<Rightarrow> None
             | Some getCondition \<Rightarrow>
                 Some (formatName_field E (collectionName tailColl @ ''-by-'' @ relationName relation),
                   createConnectionGqlField E buildToken pag
                     (headConnectionConfig E buildToken (collectionType tailColl) getCondition))))"

text \<open>Lines 90 to 93: the relations of which this collection is the head.\<close>

definition headRelations :: "store \<Rightarrow> tref \<Rightarrow> cref \<Rightarrow> relation list" where
  "headRelations S buildToken collection =
     filter (\<lambda>relation. keyCollection (headCollectionKey relation) = collection)
       (getRelations (tokens S buildToken))"

definition collectionFields :: "collab \<Rightarrow> store \<Rightarrow> tref \<Rightarrow> cref \<Rightarrow> field_entry list" where
  "collectionFields E S buildToken collection =
     buildObject
       [ [idFieldEntry E S buildToken collection],
         map Some (basicFieldEntries E S buildToken collection),
         map Some (hookFieldEntries S buildToken collection),
         map Some (createCollectionRelationTailGqlFieldEntries E buildToken collection),
         map (headRelationEntry E S buildToken) (headRelations S buildToken collection) ]"

definition createCollectionGqlType :: "collab \<Rightarrow> store \<Rightarrow> tref \<Rightarrow> cref \<Rightarrow> gql_object_type" where
  "createCollectionGqlType E S buildToken collection =
     \<lparr> name = formatName_type E (typeName (collectionType (collections S collection))),
       typeDescription = collectionDescription (collections S collection),
       isTypeOf = collectionIsTypeOf S collection,
       interfaces = (case primaryKey (collections S collection) of
                       Some _ \<Rightarrow> [getNodeInterfaceType E buildToken]
                     | None \<Rightarrow> []),
       fieldsThunk = (\<lambda>_. collectionFields E S buildToken collection) \<rparr>"

section \<open>\<open>getCollectionGqlType\<close>: the memoized getter\<close>

text \<open>
  The table of a memoized function of two arguments: it maps a pair of arguments to the
  address of the object built for it.  The objects are kept in allocation order, a new
  one at the next free address.
\<close>

record ('a, 'b, 'v) memo =
  memoCache :: "'a \<times> 'b \<Rightarrow> gref option"
  memoObjects :: "'v list"

definition memoEmpty :: "('a, 'b, 'v) memo" where
  "memoEmpty = \<lparr> memoCache = (\<lambda>k. None), memoObjects = [] \<rparr>"

text \<open>
  Modelled from the spec: \<open>memoize2\<close> is not in the source file.  The spec has a
  get-or-create memo table keyed by the identities of the build context and of the
  collection: the first call for a pair builds the type and stores it, before any field
  thunk is forced; every later call returns the stored reference.
\<close>

definition memoize2 ::
  "('a \<Rightarrow> 'b \<Rightarrow> 'v) \<Rightarrow> ('a, 'b, 'v) memo \<Rightarrow> 'a \<Rightarrow> 'b \<Rightarrow> gref \<times> ('a, 'b, 'v) memo" where
  "memoize2 fn st a b =
     (case memoCache st (a, b) of
        Some g \<Rightarrow> (g, st)
      | None \<Rightarrow>
          (let g = length (memoObjects st) in
           (g, \<lparr> memoCache = (memoCache st)((a, b) \<mapsto> g),
                 memoObjects = memoObjects st @ [fn a b] \<rparr>)))"

text \<open>
  A table is consistent with the function it memoizes when every address it holds is
  allocated, holds the object built for its key, and belongs to one key only.
\<close>

definition memoConsistent :: "('a \<Rightarrow> 'b \<Rightarrow> 'v) \<Rightarrow> ('a, 'b, 'v) memo \<Rightarrow> bool" where
  "memoConsistent fn st \<longleftrightarrow>
     (\<forall>a b g. memoCache st (a, b) = Some g \<longrightarrow>
        g < length (memoObjects st) \<and> memoObjects st ! g = fn a b)
     \<and> (\<forall>k k' g. memoCache st k = Some g \<and> memoCache st k' = Some g \<longrightarrow> k = k')"

type_synonym type_memo = "(tref, cref, gql_object_type) memo"

text \<open>Lines 13 to 22.  The call returns the address of the type and the table after it.\<close>

definition getCollectionGqlType ::
  "collab \<Rightarrow> store \<Rightarrow> type_memo \<Rightarrow> tref \<Rightarrow> cref \<Rightarrow> gref \<times> type_memo" where
  "getCollectionGqlType E S st buildToken collection =
     memoize2 (createCollectionGqlType E S) st buildToken collection"

text \<open>
  Whatever is asked for while a field thunk is forced (the types of related collections,
  the type being built itself) is asked through \<open>getCollectionGqlType\<close>: a finite
  sequence of calls, each on the table the previous one left.
\<close>

fun run_calls :: "collab \<Rightarrow> store \<Rightarrow> (tref \<times> cref) list \<Rightarrow> type_memo \<Rightarrow> type_memo" where
  "run_calls E S [] st = st"
| "run_calls E S (k # ks) st =
     run_calls E S ks (snd (getCollectionGqlType E S st (fst k) (snd k)))"

section \<open>A small schema: persons and their posts\<close>

definition exField :: field_config where
  "exField =
     \<lparr> description = None, gqlType = GraphQLNamed ''text'', args = [],
       resolve = (\<lambda>v. Inr JNull) \<rparr>"

definition exCollab :: collab where
  "exCollab =
     \<lparr> formatName_type = (\<lambda>s. s),
       formatName_field = (\<lambda>s. s),
       idSerde_serialize = (\<lambda>c v. ''node-id''),
       getNodeInterfaceType = (\<lambda>t. GraphQLInterface ''Node''),
       getGqlType = (\<lambda>t ty isInput. case ty of SemType n \<Rightarrow> GraphQLNamed n),
       createConnectionGqlField = (\<lambda>t p cfg.
         \<lparr> description = None, gqlType = GraphQLNamed ''Connection'',
           args = inputArgEntries cfg, resolve = (\<lambda>v. Inr JNull) \<rparr>),
       createCollectionRelationTailGqlFieldEntries = (\<lambda>t c.
         if c = 11 then [(''personByAuthor'', exField)] else [(''personByManager'', exField)]),
       conditionGqlType = (\<lambda>t ty. GraphQLNamed (typeName ty @ ''Condition'')),
       conditionFromInput = (\<lambda>t ty i v. True) \<rparr>"

definition exHasName :: "jsvalue \<Rightarrow> bool" where
  "exHasName v = (case v of JObject _ m \<Rightarrow> m ''name'' \<noteq> None | _ \<Rightarrow> False)"

definition exPerson :: collection where
  "exPerson =
     \<lparr> collectionName = ''person'',
       collectionDescription = None,
       collectionType =
         \<lparr> typeName = ''person'',
           typeFields = [(''name'', \<lparr> fieldDescription = None, fieldType = SemType ''text'' \<rparr>)],
           typeIsTypeOf = exHasName \<rparr>,
       primaryKey = Some \<lparr> keyCollection = 10, keyName = ''person_pkey'' \<rparr>,
       collectionPaginator = Some (Paginator ''person'') \<rparr>"

definition exPost :: collection where
  "exPost =
     \<lparr> collectionName = ''post'',
       collectionDescription = None,
       collectionType =
         \<lparr> typeName = ''post'',
           typeFields = [(''title'', \<lparr> fieldDescription = None, fieldType = SemType ''text'' \<rparr>)],
           typeIsTypeOf = (\<lambda>v. True) \<rparr>,
       primaryKey = None,
       collectionPaginator = Some (Paginator ''post'') \<rparr>"

definition exView :: collection where
  "exView = exPost \<lparr> collectionName := ''view'', collectionPaginator := None \<rparr>"

definition exAuthorCondition :: "jsvalue \<Rightarrow> condition" where
  "exAuthorCondition headValue = (\<lambda>v. v \<noteq> JNull)"

definition exAuthor :: relation where
  "exAuthor =
     \<lparr> relationName = ''author'',
       headCollectionKey = \<lparr> keyCollection = 10, keyName = ''person_pkey'' \<rparr>,
       tailCollection = 11,
       getTailConditionFromHeadValue = Some exAuthorCondition \<rparr>"

definition exViewer :: relation where
  "exViewer = exAuthor \<lparr> relationName := ''viewer'', tailCollection := 12 \<rparr>"

definition exToken :: build_token where
  "exToken =
     \<lparr> tokenOptions = \<lparr> nodeIdFieldName = ''nodeId'' \<rparr>,
       getRelations = [exViewer, exAuthor],
       objectTypeFieldEntries = Some (\<lambda>ty t. [(typeName ty @ ''Extra'', exField)]) \<rparr>"

definition exStore :: store where
  "exStore =
     \<lparr> collections = (\<lambda>c. if c = 10 then exPerson else if c = 11 then exPost else exView),
       tokens = (\<lambda>t. exToken) \<rparr>"

text \<open>
  A second schema, with two declared fields, a hook and a tail collaborator that give two
  fields each, and two usable head relations around an unusable one.
\<close>

definition exEditor :: relation where
  "exEditor = exAuthor \<lparr> relationName := ''editor'' \<rparr>"

definition exPerson2 :: collection where
  "exPerson2 =
     exPerson \<lparr> collectionType :=
       \<lparr> typeName = ''person'',
         typeFields = [(''name'', \<lparr> fieldDescription = None, fieldType = SemType ''text'' \<rparr>),
                       (''email'', \<lparr> fieldDescription = None, fieldType = SemType ''text'' \<rparr>)],
         typeIsTypeOf = exHasName \<rparr> \<rparr>"

definition exToken2 :: build_token where
  "exToken2 =
     \<lparr> tokenOptions = \<lparr> nodeIdFieldName = ''nodeId'' \<rparr>,
       getRelations = [exEditor, exViewer, exAuthor],
       objectTypeFieldEntries = Some (\<lambda>ty t.
         [(typeName ty @ ''Extra'', exField), (typeName ty @ ''Computed'', exField)]) \<rparr>"

definition exStore2 :: store where
  "exStore2 =
     \<lparr> collections = (\<lambda>c. if c = 10 then exPerson2 else if c = 11 then exPost else exView),
       tokens = (\<lambda>t. exToken2) \<rparr>"

definition exCollab2 :: collab where
  "exCollab2 =
     exCollab \<lparr> createCollectionRelationTailGqlFieldEntries := (\<lambda>t c.
       [(''personByManager'', exField), (''personByMentor'', exField)]) \<rparr>"

definition exPersonValue :: jsvalue where
  "exPersonValue = JObject None (\<lambda>k. if k = ''name'' then Some (JString ''Ada'') else None)"

section \<open>Properties\<close>

lemma buildObject_single_none: "buildObject [[None]] = []"
  by (simp add: buildObject_def List.map_filter_simps)

lemma buildObject_Cons: "buildObject (es # ess) = buildObject [es] @ buildObject ess"
  by (simp add: buildObject_def List.map_filter_def)

lemma buildObject_map_Some: "buildObject [map Some xs] = xs"
  by (induction xs) (simp_all add: buildObject_def List.map_filter_simps)

lemma collectionFields_streams:
  "collectionFields E S tok c =
     buildObject [[idFieldEntry E S tok c]]
     @ basicFieldEntries E S tok c
     @ hookFieldEntries S tok c
     @ createCollectionRelationTailGqlFieldEntries E tok c
     @ buildObject [map (headRelationEntry E S tok) (headRelations S tok c)]"
  unfolding collectionFields_def
  apply (subst buildObject_Cons)
  apply (subst (2) buildObject_Cons)
  apply (subst (3) buildObject_Cons)
  apply (subst (4) buildObject_Cons)
  apply (simp add: buildObject_map_Some)
  done

lemma nodeValueCollectionCheck_tagged:
  "nodeValueCollectionCheck c (JObject (Some t) m) = Inr (t = c)"
  by (simp add: nodeValueCollectionCheck_def nodeValueCollection_def)

text \<open>
  Claim C7.  \<open>isTypeOf\<close> is false for a value tagged with another collection; for a
  value with no tag it is the \<open>isTypeOf\<close> of the collection's own type.
\<close>

theorem isTypeOf_foreign_tag_and_untagged:
  "(\<forall>t m. t \<noteq> c \<longrightarrow> isTypeOf (createCollectionGqlType E S tok c) (JObject (Some t) m) = Inr False)
   \<and> (\<forall>v. (\<forall>t m. v \<noteq> JObject (Some t) m) \<longrightarrow>
         isTypeOf (createCollectionGqlType E S tok c) v
           = Inr (typeIsTypeOf (collectionType (collections S c)) v))"
proof (intro conjI allI impI)
  fix t m assume "t \<noteq> c"
  then show "isTypeOf (createCollectionGqlType E S tok c) (JObject (Some t) m) = Inr False"
    by (simp add: createCollectionGqlType_def collectionIsTypeOf_def nodeValueCollectionCheck_tagged)
next
  fix v assume untagged: "\<forall>t m. v \<noteq> JObject (Some t) m"
  have "nodeValueCollectionCheck c v = Inr True"
  proof (cases v)
    case (JObject tag m)
    with untagged have "tag = None" by (cases tag) auto
    with JObject show ?thesis
      by (simp add: nodeValueCollectionCheck_def nodeValueCollection_def)
  qed (simp_all add: nodeValueCollectionCheck_def nodeValueCollection_def)
  then show "isTypeOf (createCollectionGqlType E S tok c) v
           = Inr (typeIsTypeOf (collectionType (collections S c)) v)"
    by (simp add: createCollectionGqlType_def collectionIsTypeOf_def)
qed

theorem isTypeOf_foreign_tag_and_untagged_witness:
  "isTypeOf (createCollectionGqlType exCollab exStore 7 10)
      (JObject (Some 11) (\<lambda>k. if k = ''name'' then Some (JString ''Ada'') else None)) = Inr False
   \<and> exHasName exPersonValue
   \<and> isTypeOf (createCollectionGqlType exCollab exStore 7 10) exPersonValue = Inr True"
proof -
  have untagged: "\<forall>t m. exPersonValue \<noteq> JObject (Some t) m"
    by (simp add: exPersonValue_def)
  have shape: "exHasName exPersonValue"
    by (simp add: exHasName_def exPersonValue_def)
  have ty: "typeIsTypeOf (collectionType (collections exStore 10)) = exHasName"
    by (simp add: exStore_def exPerson_def)
  from isTypeOf_foreign_tag_and_untagged [of 10 exCollab exStore 7]
  show ?thesis using untagged shape ty by simp
qed


text \<open>
  Claim C9.  For a value tagged with the collection itself, \<open>isTypeOf\<close> is the
  \<open>isTypeOf\<close> of the collection's own type: a value with the right tag that fails
  the type's check is rejected.
\<close>

theorem isTypeOf_own_tag_needs_shape:
  "isTypeOf (createCollectionGqlType E S tok c) (JObject (Some c) m)
     = Inr (typeIsTypeOf (collectionType (collections S c)) (JObject (Some c) m))
   \<and> (\<not> typeIsTypeOf (collectionType (collections S c)) (JObject (Some c) m) \<longrightarrow>
        isTypeOf (createCollectionGqlType E S tok c) (JObject (Some c) m) = Inr False)"
  by (simp add: createCollectionGqlType_def collectionIsTypeOf_def nodeValueCollectionCheck_tagged)

theorem isTypeOf_own_tag_needs_shape_witness:
  "\<not> exHasName (JObject (Some 10) (\<lambda>k. None))
   \<and> isTypeOf (createCollectionGqlType exCollab exStore 7 10) (JObject (Some 10) (\<lambda>k. None)) = Inr False"
proof -
  have ty: "typeIsTypeOf (collectionType (collections exStore 10)) = exHasName"
    by (simp add: exStore_def exPerson_def)
  have shape: "\<not> exHasName (JObject (Some 10) (\<lambda>k. None))"
    by (simp add: exHasName_def)
  from isTypeOf_own_tag_needs_shape [of exCollab exStore 7 10 "\<lambda>k. None"]
  show ?thesis using ty shape by simp
qed

text \<open>
  Claim C10.  On \<open>null\<close> and \<open>undefined\<close>, \<open>isTypeOf\<close> does not read the tag
  (the read alone would throw) and returns the \<open>isTypeOf\<close> of the collection's own
  type; it throws on no value.
\<close>

theorem isTypeOf_total_on_null:
  "isTypeOf (createCollectionGqlType E S tok c) JNull
     = Inr (typeIsTypeOf (collectionType (collections S c)) JNull)
   \<and> isTypeOf (createCollectionGqlType E S tok c) JUndefined
     = Inr (typeIsTypeOf (collectionType (collections S c)) JUndefined)
   \<and> nodeValueCollection JNull = Inl TypeError
   \<and> nodeValueCollection JUndefined = Inl TypeError
   \<and> (\<forall>v. \<exists>b. isTypeOf (createCollectionGqlType E S tok c) v = Inr b)"
proof -
  have total: "\<exists>b. nodeValueCollectionCheck c v = Inr b" for v
    by (cases v)
      (auto simp: nodeValueCollectionCheck_def nodeValueCollection_def split: option.splits)
  have "\<exists>b. isTypeOf (createCollectionGqlType E S tok c) v = Inr b" for v
    using total [of v] by (auto simp: createCollectionGqlType_def collectionIsTypeOf_def)
  then show ?thesis
    by (simp add: createCollectionGqlType_def collectionIsTypeOf_def
        nodeValueCollectionCheck_def nodeValueCollection_def)
qed


theorem isTypeOf_total_on_null_witness:
  "isTypeOf (createCollectionGqlType exCollab exStore 7 10) JNull = Inr False
   \<and> isTypeOf (createCollectionGqlType exCollab exStore 7 11) JUndefined = Inr True"
proof -
  have person: "typeIsTypeOf (collectionType (collections exStore 10)) JNull = False"
    by (simp add: exStore_def exPerson_def exHasName_def)
  have post: "typeIsTypeOf (collectionType (collections exStore 11)) JUndefined = True"
    by (simp add: exStore_def exPost_def)
  from isTypeOf_total_on_null [of exCollab exStore 7 10] person
  have a: "isTypeOf (createCollectionGqlType exCollab exStore 7 10) JNull = Inr False"
    by simp
  from isTypeOf_total_on_null [of exCollab exStore 7 11] post
  have b: "isTypeOf (createCollectionGqlType exCollab exStore 7 11) JUndefined = Inr True"
    by simp
  from a b show ?thesis by simp
qed

lemma fieldsThunk_create:
  "fieldsThunk (createCollectionGqlType E S tok c) u = collectionFields E S tok c"
  by (simp add: createCollectionGqlType_def)

text \<open>
  Claim C2.  Without a primary key the type declares no interface, there is no id entry,
  and the field list starts with the declared fields.  With a primary key the type
  declares exactly the node interface, and the field list starts with one id entry, named
  by \<open>nodeIdFieldName\<close>, of type non-null ID, whose resolver serializes the collection
  and the value through \<open>idSerde.serialize\<close>.
\<close>

theorem id_field_iff_primary_key:
  "(primaryKey (collections S c) = None \<longrightarrow>
      interfaces (createCollectionGqlType E S tok c) = []
      \<and> idFieldEntry E S tok c = None
      \<and> fieldsThunk (createCollectionGqlType E S tok c) ()
          = basicFieldEntries E S tok c
            @ hookFieldEntries S tok c
            @ createCollectionRelationTailGqlFieldEntries E tok c
            @ buildObject [map (headRelationEntry E S tok) (headRelations S tok c)])
   \<and> (\<forall>pk. primaryKey (collections S c) = Some pk \<longrightarrow>
      interfaces (createCollectionGqlType E S tok c) = [getNodeInterfaceType E tok]
      \<and> (\<exists>cfg. idFieldEntry E S tok c = Some (nodeIdFieldName (tokenOptions (tokens S tok)), cfg)
            \<and> gqlType cfg = GraphQLNonNull GraphQLID
            \<and> (\<forall>v. resolve cfg v = Inr (JString (idSerde_serialize E c v)))
            \<and> fieldsThunk (createCollectionGqlType E S tok c) ()
                = (nodeIdFieldName (tokenOptions (tokens S tok)), cfg)
                  # basicFieldEntries E S tok c
                  @ hookFieldEntries S tok c
                  @ createCollectionRelationTailGqlFieldEntries E tok c
                  @ buildObject [map (headRelationEntry E S tok) (headRelations S tok c)]))"
proof (intro conjI allI impI)
  assume none: "primaryKey (collections S c) = None"
  then show "interfaces (createCollectionGqlType E S tok c) = []"
    by (simp add: createCollectionGqlType_def)
  from none show noid: "idFieldEntry E S tok c = None"
    by (simp add: idFieldEntry_def)
  show "fieldsThunk (createCollectionGqlType E S tok c) ()
          = basicFieldEntries E S tok c
            @ hookFieldEntries S tok c
            @ createCollectionRelationTailGqlFieldEntries E tok c
            @ buildObject [map (headRelationEntry E S tok) (headRelations S tok c)]"
    by (simp add: fieldsThunk_create collectionFields_streams noid buildObject_single_none)
next
  fix pk assume pk: "primaryKey (collections S c) = Some pk"
  then show "interfaces (createCollectionGqlType E S tok c) = [getNodeInterfaceType E tok]"
    by (simp add: createCollectionGqlType_def)
  define cfg where "cfg = snd (the (idFieldEntry E S tok c))"
  from pk have entry: "idFieldEntry E S tok c
      = Some (nodeIdFieldName (tokenOptions (tokens S tok)), cfg)"
    by (simp add: cfg_def idFieldEntry_def)
  from pk have ty: "gqlType cfg = GraphQLNonNull GraphQLID"
    and res: "\<forall>v. resolve cfg v = Inr (JString (idSerde_serialize E c v))"
    by (simp_all add: cfg_def idFieldEntry_def)
  have one: "buildObject [[idFieldEntry E S tok c]]
      = [(nodeIdFieldName (tokenOptions (tokens S tok)), cfg)]"
    by (simp add: entry buildObject_def List.map_filter_simps)
  have "fieldsThunk (createCollectionGqlType E S tok c) ()
                = (nodeIdFieldName (tokenOptions (tokens S tok)), cfg)
                  # basicFieldEntries E S tok c
                  @ hookFieldEntries S tok c
                  @ createCollectionRelationTailGqlFieldEntries E tok c
                  @ buildObject [map (headRelationEntry E S tok) (headRelations S tok c)]"
    by (simp add: fieldsThunk_create collectionFields_streams one)
  with entry ty res
  show "\<exists>cfg. idFieldEntry E S tok c = Some (nodeIdFieldName (tokenOptions (tokens S tok)), cfg)
            \<and> gqlType cfg = GraphQLNonNull GraphQLID
            \<and> (\<forall>v. resolve cfg v = Inr (JString (idSerde_serialize E c v)))
            \<and> fieldsThunk (createCollectionGqlType E S tok c) ()
                = (nodeIdFieldName (tokenOptions (tokens S tok)), cfg)
                  # basicFieldEntries E S tok c
                  @ hookFieldEntries S tok c
                  @ createCollectionRelationTailGqlFieldEntries E tok c
                  @ buildObject [map (headRelationEntry E S tok) (headRelations S tok c)]"
    by blast
qed

lemma ex_post_rest:
  "hookFieldEntries exStore 7 11 = [(''postExtra'', exField)]"
  "createCollectionRelationTailGqlFieldEntries exCollab 7 11 = [(''personByAuthor'', exField)]"
  "headRelations exStore 7 11 = []"
  by (simp_all add: hookFieldEntries_def headRelations_def exStore_def exToken_def exCollab_def
        exViewer_def exAuthor_def exPost_def)

lemma ex_person_rest:
  "hookFieldEntries exStore 7 10 = [(''personExtra'', exField)]"
  "createCollectionRelationTailGqlFieldEntries exCollab 7 10 = [(''personByManager'', exField)]"
  "headRelations exStore 7 10 = [exViewer, exAuthor]"
  by (simp_all add: hookFieldEntries_def headRelations_def exStore_def exToken_def exCollab_def
        exViewer_def exAuthor_def exPerson_def)

lemma ex_basic_names:
  "map fst (basicFieldEntries exCollab exStore 7 10) = [''name'']"
  "map fst (basicFieldEntries exCollab exStore 7 11) = [''title'']"
  by (simp_all add: basicFieldEntries_def basicFieldEntry_def exStore_def exPost_def
      exPerson_def exCollab_def)

lemma ex_head_entries:
  "headRelationEntry exCollab exStore 7 exViewer = None"
  "map_option fst (headRelationEntry exCollab exStore 7 exAuthor) = Some ''post-by-author''"
  by (simp_all add: headRelationEntry_def exStore_def exView_def exPost_def exViewer_def
      exAuthor_def exCollab_def)

lemma ex_head_names:
  "map fst (buildObject [[headRelationEntry exCollab exStore 7 exViewer,
                           headRelationEntry exCollab exStore 7 exAuthor]])
     = [''post-by-author'']"
  using ex_head_entries
  by (auto simp: buildObject_def List.map_filter_simps)

theorem id_field_iff_primary_key_witness:
  "primaryKey (collections exStore 11) = None
   \<and> interfaces (createCollectionGqlType exCollab exStore 7 11) = []
   \<and> map fst (fieldsThunk (createCollectionGqlType exCollab exStore 7 11) ())
       = [''title'', ''postExtra'', ''personByAuthor'']
   \<and> primaryKey (collections exStore 10) = Some \<lparr> keyCollection = 10, keyName = ''person_pkey'' \<rparr>
   \<and> interfaces (createCollectionGqlType exCollab exStore 7 10) = [GraphQLInterface ''Node'']
   \<and> map fst (fieldsThunk (createCollectionGqlType exCollab exStore 7 10) ())
       = [''nodeId'', ''name'', ''personExtra'', ''personByManager'', ''post-by-author'']"
proof -
  have no_pk: "primaryKey (collections exStore 11) = None"
    by (simp add: exStore_def exPost_def)
  have pk: "primaryKey (collections exStore 10) = Some \<lparr> keyCollection = 10, keyName = ''person_pkey'' \<rparr>"
    by (simp add: exStore_def exPerson_def)
  have tok: "nodeIdFieldName (tokenOptions (tokens exStore 7)) = ''nodeId''"
    by (simp add: exStore_def exToken_def)
  have node: "getNodeInterfaceType exCollab 7 = GraphQLInterface ''Node''"
    by (simp add: exCollab_def)
  from id_field_iff_primary_key [of exStore 11 exCollab 7] no_pk
  have a: "interfaces (createCollectionGqlType exCollab exStore 7 11) = []
    \<and> map fst (fieldsThunk (createCollectionGqlType exCollab exStore 7 11) ())
       = [''title'', ''postExtra'', ''personByAuthor'']"
    by (simp add: ex_post_rest ex_basic_names buildObject_def List.map_filter_simps)
  from id_field_iff_primary_key [of exStore 10 exCollab 7] pk tok node
  have b: "interfaces (createCollectionGqlType exCollab exStore 7 10) = [GraphQLInterface ''Node'']
    \<and> map fst (fieldsThunk (createCollectionGqlType exCollab exStore 7 10) ())
       = [''nodeId'', ''name'', ''personExtra'', ''personByManager'', ''post-by-author'']"
    by (auto simp: ex_person_rest ex_basic_names ex_head_names)
  from no_pk pk a b show ?thesis by simp
qed


lemma headRelationEntry_None_iff:
  "headRelationEntry E S tok r = None \<longleftrightarrow>
     collectionPaginator (collections S (tailCollection r)) = None
     \<or> getTailConditionFromHeadValue r = None"
  by (simp add: headRelationEntry_def Let_def split: option.splits)

lemma buildObject_map_filter_Some:
  "map Some (buildObject [map f xs]) = map f (filter (\<lambda>x. f x \<noteq> None) xs)"
proof (induction xs)
  case Nil
  show ?case by (simp add: buildObject_def List.map_filter_simps)
next
  case (Cons x xs)
  then show ?case
    by (cases "f x") (simp_all add: buildObject_def List.map_filter_simps)
qed

lemma buildObject_map_filter: "buildObject [map f xs] = List.map_filter f xs"
proof (induction xs)
  case Nil
  show ?case by (simp add: buildObject_def List.map_filter_simps)
next
  case (Cons x xs)
  then show ?case
    by (cases "f x") (simp_all add: buildObject_def List.map_filter_simps)
qed

lemma buildObject_single: "buildObject [[e]] = (case e of None \<Rightarrow> [] | Some entry \<Rightarrow> [entry])"
  by (cases e) (simp_all add: buildObject_def List.map_filter_simps)

text \<open>
  Claim C3.  The forced field thunk is the concatenation of: the id entry (one, named by
  \<open>nodeIdFieldName\<close>, when there is a primary key, none otherwise), the declared
  fields in the order of the type's own field list, the fields the hook returns for the
  type and the build token (none without a hook), the tail relation fields, and the
  fields of the head relations, which follow the order of the relation registry.
\<close>

theorem field_order:
  "fieldsThunk (createCollectionGqlType E S tok c) ()
     = (case idFieldEntry E S tok c of None \<Rightarrow> [] | Some entry \<Rightarrow> [entry])
       @ map (basicFieldEntry E tok) (typeFields (collectionType (collections S c)))
       @ (case objectTypeFieldEntries (tokens S tok) of
            Some hook \<Rightarrow> hook (collectionType (collections S c)) tok
          | None \<Rightarrow> [])
       @ createCollectionRelationTailGqlFieldEntries E tok c
       @ List.map_filter (headRelationEntry E S tok)
           (filter (\<lambda>r. keyCollection (headCollectionKey r) = c) (getRelations (tokens S tok)))
   \<and> fieldsThunk (createCollectionGqlType E S tok c) ()
     = buildObject [[idFieldEntry E S tok c]]
       @ basicFieldEntries E S tok c
       @ hookFieldEntries S tok c
       @ createCollectionRelationTailGqlFieldEntries E tok c
       @ buildObject [map (headRelationEntry E S tok) (headRelations S tok c)]
   \<and> length (buildObject [[idFieldEntry E S tok c]]) \<le> 1
   \<and> map fst (buildObject [[idFieldEntry E S tok c]])
       = (case primaryKey (collections S c) of
            None \<Rightarrow> []
          | Some pk \<Rightarrow> [nodeIdFieldName (tokenOptions (tokens S tok))])
   \<and> map fst (basicFieldEntries E S tok c)
       = map (\<lambda>entry. formatName_field E (fst entry)) (typeFields (collectionType (collections S c)))
   \<and> (\<forall>hook. objectTypeFieldEntries (tokens S tok) = Some hook \<longrightarrow>
         hookFieldEntries S tok c = hook (collectionType (collections S c)) tok)
   \<and> (objectTypeFieldEntries (tokens S tok) = None \<longrightarrow> hookFieldEntries S tok c = [])
   \<and> map Some (buildObject [map (headRelationEntry E S tok) (headRelations S tok c)])
       = map (headRelationEntry E S tok)
           (filter (\<lambda>r. keyCollection (headCollectionKey r) = c
                        \<and> collectionPaginator (collections S (tailCollection r)) \<noteq> None
                        \<and> getTailConditionFromHeadValue r \<noteq> None)
              (getRelations (tokens S tok)))"
proof (intro conjI allI impI)
  show streams: "fieldsThunk (createCollectionGqlType E S tok c) ()
     = buildObject [[idFieldEntry E S tok c]]
       @ basicFieldEntries E S tok c
       @ hookFieldEntries S tok c
       @ createCollectionRelationTailGqlFieldEntries E tok c
       @ buildObject [map (headRelationEntry E S tok) (headRelations S tok c)]"
    by (simp only: fieldsThunk_create collectionFields_streams)
  show "fieldsThunk (createCollectionGqlType E S tok c) ()
     = (case idFieldEntry E S tok c of None \<Rightarrow> [] | Some entry \<Rightarrow> [entry])
       @ map (basicFieldEntry E tok) (typeFields (collectionType (collections S c)))
       @ (case objectTypeFieldEntries (tokens S tok) of
            Some hook \<Rightarrow> hook (collectionType (collections S c)) tok
          | None \<Rightarrow> [])
       @ createCollectionRelationTailGqlFieldEntries E tok c
       @ List.map_filter (headRelationEntry E S tok)
           (filter (\<lambda>r. keyCollection (headCollectionKey r) = c) (getRelations (tokens S tok)))"
    unfolding streams
    by (simp only: buildObject_single buildObject_map_filter basicFieldEntries_def
        hookFieldEntries_def headRelations_def)
  show "length (buildObject [[idFieldEntry E S tok c]]) \<le> 1"
    by (cases "idFieldEntry E S tok c") (simp_all add: buildObject_def List.map_filter_simps)
  show "map fst (buildObject [[idFieldEntry E S tok c]])
       = (case primaryKey (collections S c) of
            None \<Rightarrow> []
          | Some pk \<Rightarrow> [nodeIdFieldName (tokenOptions (tokens S tok))])"
    by (cases "primaryKey (collections S c)")
      (simp_all add: buildObject_single idFieldEntry_def)
  show "map fst (basicFieldEntries E S tok c)
       = map (\<lambda>entry. formatName_field E (fst entry)) (typeFields (collectionType (collections S c)))"
    by (simp add: basicFieldEntries_def basicFieldEntry_def split_def)
next
  fix hook assume "objectTypeFieldEntries (tokens S tok) = Some hook"
  then show "hookFieldEntries S tok c = hook (collectionType (collections S c)) tok"
    by (simp add: hookFieldEntries_def)
next
  assume "objectTypeFieldEntries (tokens S tok) = None"
  then show "hookFieldEntries S tok c = []"
    by (simp add: hookFieldEntries_def)
next
  have "filter (\<lambda>r. headRelationEntry E S tok r \<noteq> None) (headRelations S tok c)
      = filter (\<lambda>r. keyCollection (headCollectionKey r) = c
                        \<and> collectionPaginator (collections S (tailCollection r)) \<noteq> None
                        \<and> getTailConditionFromHeadValue r \<noteq> None)
              (getRelations (tokens S tok))"
    by (simp add: headRelations_def headRelationEntry_None_iff conj_commute conj_left_commute)
  then show "map Some (buildObject [map (headRelationEntry E S tok) (headRelations S tok c)])
       = map (headRelationEntry E S tok)
           (filter (\<lambda>r. keyCollection (headCollectionKey r) = c
                        \<and> collectionPaginator (collections S (tailCollection r)) \<noteq> None
                        \<and> getTailConditionFromHeadValue r \<noteq> None)
              (getRelations (tokens S tok)))"
    by (simp only: buildObject_map_filter_Some)
qed

theorem field_order_witness:
  "objectTypeFieldEntries (tokens exStore2 7)
     = Some (\<lambda>ty t. [(typeName ty @ ''Extra'', exField), (typeName ty @ ''Computed'', exField)])
   \<and> hookFieldEntries exStore2 7 10 = [(''personExtra'', exField), (''personComputed'', exField)]
   \<and> map fst (fieldsThunk (createCollectionGqlType exCollab2 exStore2 7 10) ())
     = [''nodeId'', ''name'', ''email'', ''personExtra'', ''personComputed'',
        ''personByManager'', ''personByMentor'', ''post-by-editor'', ''post-by-author'']
   \<and> objectTypeFieldEntries (tokens exStore 7) \<noteq> None
   \<and> map fst (fieldsThunk (createCollectionGqlType exCollab exStore 7 10) ())
     = [''nodeId'', ''name'', ''personExtra'', ''personByManager'', ''post-by-author'']"
proof -
  note order2 = field_order [of exCollab2 exStore2 7 10]
  have hook: "objectTypeFieldEntries (tokens exStore2 7)
     = Some (\<lambda>ty t. [(typeName ty @ ''Extra'', exField), (typeName ty @ ''Computed'', exField)])"
    by (simp add: exStore2_def exToken2_def)
  have ty: "typeName (collectionType (collections exStore2 10)) = ''person''"
    by (simp add: exStore2_def exPerson2_def)
  from order2 hook ty
  have hooked: "hookFieldEntries exStore2 7 10 = [(''personExtra'', exField), (''personComputed'', exField)]"
    by simp
  have idf: "map fst (case idFieldEntry exCollab2 exStore2 7 10 of None \<Rightarrow> [] | Some entry \<Rightarrow> [entry])
      = [''nodeId'']"
    by (simp add: idFieldEntry_def exStore2_def exPerson2_def exPerson_def exToken2_def)
  have basic: "map fst (map (basicFieldEntry exCollab2 7) (typeFields (collectionType (collections exStore2 10))))
      = [''name'', ''email'']"
    by (simp add: basicFieldEntry_def exStore2_def exPerson2_def exCollab2_def exCollab_def)
  have hookseg: "map fst (case objectTypeFieldEntries (tokens exStore2 7) of
            Some hook \<Rightarrow> hook (collectionType (collections exStore2 10)) 7
          | None \<Rightarrow> []) = [''personExtra'', ''personComputed'']"
    by (simp add: hook ty)
  have tail: "map fst (createCollectionRelationTailGqlFieldEntries exCollab2 7 10)
      = [''personByManager'', ''personByMentor'']"
    by (simp add: exCollab2_def)
  have rels: "filter (\<lambda>r. keyCollection (headCollectionKey r) = 10) (getRelations (tokens exStore2 7))
      = [exEditor, exViewer, exAuthor]"
    by (simp add: exStore2_def exToken2_def exEditor_def exViewer_def exAuthor_def)
  have heads: "headRelationEntry exCollab2 exStore2 7 exViewer = None"
    "map_option fst (headRelationEntry exCollab2 exStore2 7 exEditor) = Some ''post-by-editor''"
    "map_option fst (headRelationEntry exCollab2 exStore2 7 exAuthor) = Some ''post-by-author''"
    by (simp_all add: headRelationEntry_def exStore2_def exView_def exPost_def exViewer_def
        exEditor_def exAuthor_def exCollab2_def exCollab_def)
  have head_names: "map fst (List.map_filter (headRelationEntry exCollab2 exStore2 7)
      (filter (\<lambda>r. keyCollection (headCollectionKey r) = 10) (getRelations (tokens exStore2 7))))
      = [''post-by-editor'', ''post-by-author'']"
    unfolding rels using heads by (auto simp: List.map_filter_simps)
  from order2 [THEN conjunct1]
  have "map fst (fieldsThunk (createCollectionGqlType exCollab2 exStore2 7 10) ())
     = map fst (case idFieldEntry exCollab2 exStore2 7 10 of None \<Rightarrow> [] | Some entry \<Rightarrow> [entry])
       @ map fst (map (basicFieldEntry exCollab2 7) (typeFields (collectionType (collections exStore2 10))))
       @ map fst (case objectTypeFieldEntries (tokens exStore2 7) of
            Some hook \<Rightarrow> hook (collectionType (collections exStore2 10)) 7
          | None \<Rightarrow> [])
       @ map fst (createCollectionRelationTailGqlFieldEntries exCollab2 7 10)
       @ map fst (List.map_filter (headRelationEntry exCollab2 exStore2 7)
           (filter (\<lambda>r. keyCollection (headCollectionKey r) = 10) (getRelations (tokens exStore2 7))))"
    by (simp only: map_append)
  then have names2: "map fst (fieldsThunk (createCollectionGqlType exCollab2 exStore2 7 10) ())
     = [''nodeId'', ''name'', ''email'', ''personExtra'', ''personComputed'',
        ''personByManager'', ''personByMentor'', ''post-by-editor'', ''post-by-author'']"
    by (simp only: idf basic hookseg tail head_names append_Cons append_Nil)
  have idf1: "map fst (buildObject [[idFieldEntry exCollab exStore 7 10]]) = [''nodeId'']"
    by (simp add: idFieldEntry_def exStore_def exPerson_def exToken_def buildObject_def
        List.map_filter_simps)
  from field_order [of exCollab exStore 7 10, THEN conjunct2, THEN conjunct1]
  have "map fst (fieldsThunk (createCollectionGqlType exCollab exStore 7 10) ())
     = map fst (buildObject [[idFieldEntry exCollab exStore 7 10]])
       @ map fst (basicFieldEntries exCollab exStore 7 10)
       @ map fst (hookFieldEntries exStore 7 10)
       @ map fst (createCollectionRelationTailGqlFieldEntries exCollab 7 10)
       @ map fst (buildObject [map (headRelationEntry exCollab exStore 7) (headRelations exStore 7 10)])"
    by (simp only: map_append)
  then have names1: "map fst (fieldsThunk (createCollectionGqlType exCollab exStore 7 10) ())
     = [''nodeId'', ''name'', ''personExtra'', ''personByManager'', ''post-by-author'']"
    by (simp add: idf1 ex_person_rest ex_basic_names ex_head_names)
  have hook1: "objectTypeFieldEntries (tokens exStore 7) \<noteq> None"
    by (simp add: exStore_def exToken_def)
  from hook hooked names2 hook1 names1 show ?thesis by simp
qed

text \<open>
  Claim C8.  There is one declared entry per field of the collection's type, in the same
  order, placed right after the id entry: its name is \<open>formatName.field\<close> of the field
  name, its type is \<open>getGqlType\<close> of the field's type with \<open>input = false\<close>, and
  its resolver returns what the value stores under the field name.
\<close>

theorem declared_fields:
  "length (basicFieldEntries E S tok c) = length (typeFields (collectionType (collections S c)))
   \<and> (\<forall>i < length (typeFields (collectionType (collections S c))).
        fst (basicFieldEntries E S tok c ! i)
          = formatName_field E (fst (typeFields (collectionType (collections S c)) ! i))
        \<and> gqlType (snd (basicFieldEntries E S tok c ! i))
          = getGqlType E tok (fieldType (snd (typeFields (collectionType (collections S c)) ! i))) False
        \<and> (\<forall>tag m. resolve (snd (basicFieldEntries E S tok c ! i)) (JObject tag m)
              = Inr (case m (fst (typeFields (collectionType (collections S c)) ! i)) of
                       None \<Rightarrow> JUndefined | Some x \<Rightarrow> x)))
   \<and> (\<exists>post. fieldsThunk (createCollectionGqlType E S tok c) ()
         = buildObject [[idFieldEntry E S tok c]] @ basicFieldEntries E S tok c @ post)"
proof (intro conjI allI impI)
  show "length (basicFieldEntries E S tok c) = length (typeFields (collectionType (collections S c)))"
    by (simp add: basicFieldEntries_def)
next
  fix i assume i: "i < length (typeFields (collectionType (collections S c)))"
  then have nth: "basicFieldEntries E S tok c ! i
      = basicFieldEntry E tok (typeFields (collectionType (collections S c)) ! i)"
    by (simp add: basicFieldEntries_def)
  show "fst (basicFieldEntries E S tok c ! i)
          = formatName_field E (fst (typeFields (collectionType (collections S c)) ! i))"
    by (simp add: nth basicFieldEntry_def split_def)
  show "gqlType (snd (basicFieldEntries E S tok c ! i))
          = getGqlType E tok (fieldType (snd (typeFields (collectionType (collections S c)) ! i))) False"
    by (simp add: nth basicFieldEntry_def split_def)
  fix tag m
  show "resolve (snd (basicFieldEntries E S tok c ! i)) (JObject tag m)
              = Inr (case m (fst (typeFields (collectionType (collections S c)) ! i)) of
                       None \<Rightarrow> JUndefined | Some x \<Rightarrow> x)"
    by (simp add: nth basicFieldEntry_def split_def valueGet_def split: option.splits)
next
  show "\<exists>post. fieldsThunk (createCollectionGqlType E S tok c) ()
         = buildObject [[idFieldEntry E S tok c]] @ basicFieldEntries E S tok c @ post"
    by (simp only: fieldsThunk_create collectionFields_streams) blast
qed

theorem declared_fields_witness:
  "(0::nat) < length (typeFields (collectionType (collections exStore 10)))
   \<and> fst (basicFieldEntries exCollab exStore 7 10 ! 0) = ''name''
   \<and> gqlType (snd (basicFieldEntries exCollab exStore 7 10 ! 0)) = GraphQLNamed ''text''
   \<and> resolve (snd (basicFieldEntries exCollab exStore 7 10 ! 0)) exPersonValue = Inr (JString ''Ada'')"
proof -
  have fs: "typeFields (collectionType (collections exStore 10))
      = [(''name'', \<lparr> fieldDescription = None, fieldType = SemType ''text'' \<rparr>)]"
    by (simp add: exStore_def exPerson_def)
  have E: "formatName_field exCollab ''name'' = ''name''"
    "getGqlType exCollab 7 (SemType ''text'') False = GraphQLNamed ''text''"
    by (simp_all add: exCollab_def)
  from declared_fields [of exCollab exStore 7 10] fs E
  show ?thesis by (simp add: exPersonValue_def)
qed


lemma buildObject_filter_None:
  "f r = None \<Longrightarrow> buildObject [map f (filter (\<lambda>x. x \<noteq> r) xs)] = buildObject [map f xs]"
proof (induction xs)
  case Nil
  show ?case by simp
next
  case (Cons x xs)
  then show ?case
    by (cases "x = r"; cases "f x") (simp_all add: buildObject_def List.map_filter_simps)
qed

text \<open>
  Claim C4.  A relation whose head is the collection and whose tail collection has no
  paginator, or which cannot derive a condition from a head value, gives \<open>null\<close>
  instead of an entry: the head relation fields are those of the registry without it, one
  for each relation that has both capabilities.  The thunk has no failing branch on this
  path; it returns the list.
\<close>

theorem head_relation_without_capability_omitted:
  assumes "keyCollection (headCollectionKey relation) = c"
    and "collectionPaginator (collections S (tailCollection relation)) = None
         \<or> getTailConditionFromHeadValue relation = None"
  shows "headRelationEntry E S tok relation = None
    \<and> buildObject [map (headRelationEntry E S tok) (headRelations S tok c)]
        = buildObject [map (headRelationEntry E S tok)
            (filter (\<lambda>x. x \<noteq> relation) (headRelations S tok c))]
    \<and> length (buildObject [map (headRelationEntry E S tok) (headRelations S tok c)])
        = length (filter (\<lambda>x. collectionPaginator (collections S (tailCollection x)) \<noteq> None
                             \<and> getTailConditionFromHeadValue x \<noteq> None)
            (headRelations S tok c))"
proof -
  from assms(2) have none: "headRelationEntry E S tok relation = None"
    by (simp add: headRelationEntry_None_iff)
  have "length (map Some (buildObject [map (headRelationEntry E S tok) (headRelations S tok c)]))
      = length (filter (\<lambda>x. headRelationEntry E S tok x \<noteq> None) (headRelations S tok c))"
    by (simp only: buildObject_map_filter_Some length_map)
  then have len: "length (buildObject [map (headRelationEntry E S tok) (headRelations S tok c)])
        = length (filter (\<lambda>x. collectionPaginator (collections S (tailCollection x)) \<noteq> None
                             \<and> getTailConditionFromHeadValue x \<noteq> None)
            (headRelations S tok c))"
    by (simp add: headRelationEntry_None_iff)
  from none len show ?thesis
    by (simp add: buildObject_filter_None)
qed

theorem head_relation_without_capability_omitted_witness:
  "keyCollection (headCollectionKey exViewer) = 10
   \<and> collectionPaginator (collections exStore (tailCollection exViewer)) = None
   \<and> headRelationEntry exCollab exStore 7 exViewer = None
   \<and> length (buildObject [map (headRelationEntry exCollab exStore 7) (headRelations exStore 7 10)]) = 1"
proof -
  have head: "keyCollection (headCollectionKey exViewer) = 10"
    by (simp add: exViewer_def exAuthor_def)
  have pag: "collectionPaginator (collections exStore (tailCollection exViewer)) = None"
    by (simp add: exViewer_def exAuthor_def exStore_def exView_def)
  have pag': "collectionPaginator (collections exStore (tailCollection exAuthor)) \<noteq> None"
    by (simp add: exAuthor_def exStore_def exPost_def)
  have cap: "getTailConditionFromHeadValue exAuthor \<noteq> None"
    by (simp add: exAuthor_def)
  from head pag have
    "collectionPaginator (collections exStore (tailCollection exViewer)) = None
         \<or> getTailConditionFromHeadValue exViewer = None" by simp
  note omitted = head_relation_without_capability_omitted [OF head this, of exCollab 7]
  have count: "length (filter (\<lambda>x. collectionPaginator (collections exStore (tailCollection x)) \<noteq> None
                             \<and> getTailConditionFromHeadValue x \<noteq> None)
            (headRelations exStore 7 10)) = 1"
    using pag pag' cap by (simp add: ex_person_rest)
  from omitted [THEN conjunct1] omitted [THEN conjunct2, THEN conjunct2] count head pag
  show ?thesis by simp
qed

text \<open>
  Claim C5.  A head relation with a tail paginator and a condition derivation gives the
  entry named by \<open>formatName.field\<close> of \<open><tail name>-by-<relation name>\<close>, built by
  \<open>createConnectionGqlField\<close> from a configuration whose input arguments are exactly
  one, \<open>condition\<close>, of the tail type's condition type; the entry is in the field list
  of the head collection's type.
\<close>

theorem head_relation_connection_field:
  assumes "collectionPaginator (collections S (tailCollection relation)) = Some pag"
    and "getTailConditionFromHeadValue relation = Some getCondition"
  shows "headRelationEntry E S tok relation
      = Some (formatName_field E
                (collectionName (collections S (tailCollection relation)) @ ''-by-'' @ relationName relation),
              createConnectionGqlField E tok pag
                (headConnectionConfig E tok
                   (collectionType (collections S (tailCollection relation))) getCondition))
    \<and> map fst (inputArgEntries (headConnectionConfig E tok
          (collectionType (collections S (tailCollection relation))) getCondition)) = [''condition'']
    \<and> map (\<lambda>a. argType (snd a)) (inputArgEntries (headConnectionConfig E tok
          (collectionType (collections S (tailCollection relation))) getCondition))
        = [gqlConditionType (getConditionGqlType E tok
             (collectionType (collections S (tailCollection relation))))]
    \<and> (relation \<in> set (getRelations (tokens S tok))
         \<and> keyCollection (headCollectionKey relation) = c \<longrightarrow>
       (formatName_field E
          (collectionName (collections S (tailCollection relation)) @ ''-by-'' @ relationName relation),
        createConnectionGqlField E tok pag
          (headConnectionConfig E tok
             (collectionType (collections S (tailCollection relation))) getCondition))
       \<in> set (fieldsThunk (createCollectionGqlType E S tok c) ()))"
proof -
  let ?entry = "(formatName_field E
          (collectionName (collections S (tailCollection relation)) @ ''-by-'' @ relationName relation),
        createConnectionGqlField E tok pag
          (headConnectionConfig E tok
             (collectionType (collections S (tailCollection relation))) getCondition))"
  from assms have entry: "headRelationEntry E S tok relation = Some ?entry"
    by (simp add: headRelationEntry_def Let_def)
  have member: "?entry \<in> set (fieldsThunk (createCollectionGqlType E S tok c) ())"
    if "relation \<in> set (getRelations (tokens S tok))"
      and "keyCollection (headCollectionKey relation) = c"
  proof -
    from that have "relation \<in> set (filter (\<lambda>r. headRelationEntry E S tok r \<noteq> None) (headRelations S tok c))"
      by (simp add: headRelations_def entry)
    then have "headRelationEntry E S tok relation
        \<in> set (map Some (buildObject [map (headRelationEntry E S tok) (headRelations S tok c)]))"
      by (simp only: buildObject_map_filter_Some) simp
    then have "?entry \<in> set (buildObject [map (headRelationEntry E S tok) (headRelations S tok c)])"
      by (auto simp: entry)
    then show ?thesis
      by (simp add: fieldsThunk_create collectionFields_streams)
  qed
  from entry member show ?thesis
    by (simp add: headConnectionConfig_def Let_def)
qed

theorem head_relation_connection_field_witness:
  "collectionPaginator (collections exStore (tailCollection exAuthor)) = Some (Paginator ''post'')
   \<and> getTailConditionFromHeadValue exAuthor = Some exAuthorCondition
   \<and> map_option fst (headRelationEntry exCollab exStore 7 exAuthor) = Some ''post-by-author''
   \<and> map (\<lambda>a. argType (snd a)) (inputArgEntries (headConnectionConfig exCollab 7
          (collectionType (collections exStore (tailCollection exAuthor))) exAuthorCondition))
        = [GraphQLNamed ''postCondition'']"
proof -
  have pag: "collectionPaginator (collections exStore (tailCollection exAuthor)) = Some (Paginator ''post'')"
    by (simp add: exAuthor_def exStore_def exPost_def)
  have cap: "getTailConditionFromHeadValue exAuthor = Some exAuthorCondition"
    by (simp add: exAuthor_def)
  have nm: "formatName_field exCollab
      (collectionName (collections exStore (tailCollection exAuthor)) @ ''-by-'' @ relationName exAuthor)
      = ''post-by-author''"
    by (simp add: exAuthor_def exStore_def exPost_def exCollab_def)
  have ty: "gqlConditionType (getConditionGqlType exCollab 7
             (collectionType (collections exStore (tailCollection exAuthor))))
      = GraphQLNamed ''postCondition''"
    by (simp add: getConditionGqlType_def exAuthor_def exStore_def exPost_def exCollab_def)
  from head_relation_connection_field [OF pag cap, of exCollab 7 10] pag cap nm ty
  show ?thesis by simp
qed


lemma getPaginatorInput_headConnectionConfig:
  "getPaginatorInput (headConnectionConfig E tok ty getCondition) headValue a
     = conditionHelpers_and (getCondition headValue)
         (fromGqlInput (getConditionGqlType E tok ty) (condition a))"
  by (simp add: headConnectionConfig_def Let_def)

lemma conditionHelpers_and_neutral: "conditionHelpers_and c conditionTrue = c"
  by (simp add: conditionHelpers_and_def conditionTrue_def)

lemma fromGqlInput_absent: "fromGqlInput (getConditionGqlType E tok ty) None = conditionTrue"
  by (simp add: getConditionGqlType_def)

text \<open>
  Claim C6.  The paginator input of a head relation field is \<open>conditionHelpers.and\<close> of
  the condition derived from the head value and the condition parsed from
  \<open>args.condition\<close>; with no \<open>condition\<close> argument it is the condition derived from
  the head value alone.
\<close>

theorem paginator_input_is_and:
  assumes "collectionPaginator (collections S (tailCollection relation)) = Some pag"
    and "getTailConditionFromHeadValue relation = Some getCondition"
  shows "\<exists>fieldName cfg.
      headRelationEntry E S tok relation = Some (fieldName, createConnectionGqlField E tok pag cfg)
      \<and> cfg = headConnectionConfig E tok (collectionType (collections S (tailCollection relation))) getCondition
      \<and> (\<forall>headValue a. getPaginatorInput cfg headValue a
            = conditionHelpers_and (getCondition headValue)
                (fromGqlInput (getConditionGqlType E tok
                   (collectionType (collections S (tailCollection relation)))) (condition a)))
      \<and> (\<forall>headValue a v. getPaginatorInput cfg headValue a v
            \<longleftrightarrow> getCondition headValue v
                \<and> fromGqlInput (getConditionGqlType E tok
                     (collectionType (collections S (tailCollection relation)))) (condition a) v)
      \<and> (\<forall>headValue. getPaginatorInput cfg headValue \<lparr> condition = None \<rparr>
            = getCondition headValue)"
proof -
  let ?ty = "collectionType (collections S (tailCollection relation))"
  let ?cfg = "headConnectionConfig E tok ?ty getCondition"
  from assms have entry: "headRelationEntry E S tok relation
      = Some (formatName_field E
                (collectionName (collections S (tailCollection relation)) @ ''-by-'' @ relationName relation),
              createConnectionGqlField E tok pag ?cfg)"
    by (simp add: headRelationEntry_def Let_def)
  have and_eq: "\<forall>headValue a. getPaginatorInput ?cfg headValue a
            = conditionHelpers_and (getCondition headValue)
                (fromGqlInput (getConditionGqlType E tok ?ty) (condition a))"
    by (simp add: getPaginatorInput_headConnectionConfig)
  have pointwise: "\<forall>headValue a v. getPaginatorInput ?cfg headValue a v
            \<longleftrightarrow> getCondition headValue v
                \<and> fromGqlInput (getConditionGqlType E tok ?ty) (condition a) v"
    by (simp add: getPaginatorInput_headConnectionConfig conditionHelpers_and_def)
  have absent: "\<forall>headValue. getPaginatorInput ?cfg headValue \<lparr> condition = None \<rparr>
            = getCondition headValue"
    by (simp add: getPaginatorInput_headConnectionConfig fromGqlInput_absent
        conditionHelpers_and_neutral)
  from entry and_eq pointwise absent show ?thesis by blast
qed

theorem paginator_input_is_and_witness:
  "collectionPaginator (collections exStore (tailCollection exAuthor)) = Some (Paginator ''post'')
   \<and> getTailConditionFromHeadValue exAuthor = Some exAuthorCondition
   \<and> getPaginatorInput (headConnectionConfig exCollab 7
          (collectionType (collections exStore (tailCollection exAuthor))) exAuthorCondition)
        exPersonValue \<lparr> condition = None \<rparr>
      = exAuthorCondition exPersonValue"
proof -
  have pag: "collectionPaginator (collections exStore (tailCollection exAuthor)) = Some (Paginator ''post'')"
    by (simp add: exAuthor_def exStore_def exPost_def)
  have cap: "getTailConditionFromHeadValue exAuthor = Some exAuthorCondition"
    by (simp add: exAuthor_def)
  from paginator_input_is_and [OF pag cap, of exCollab 7] pag cap
  show ?thesis by auto
qed

lemma memoize2_hit:
  "memoCache st (a, b) = Some g \<Longrightarrow> memoize2 fn st a b = (g, st)"
  by (simp add: memoize2_def)

lemma memoize2_cache_after:
  "memoCache (snd (memoize2 fn st a b)) (a, b) = Some (fst (memoize2 fn st a b))"
  by (simp add: memoize2_def Let_def split: option.splits)

lemma memoize2_cache_mono:
  "memoCache st k = Some g \<Longrightarrow> memoCache (snd (memoize2 fn st a b)) k = Some g"
  by (auto simp: memoize2_def Let_def split: option.splits)

lemma run_calls_cache_mono:
  "memoCache st k = Some g \<Longrightarrow> memoCache (run_calls E S ks st) k = Some g"
proof (induction ks arbitrary: st)
  case Nil
  then show ?case by simp
next
  case (Cons call ks)
  from Cons.prems
  have "memoCache (snd (getCollectionGqlType E S st (fst call) (snd call))) k = Some g"
    by (simp add: getCollectionGqlType_def memoize2_cache_mono)
  then show ?case by (simp add: Cons.IH)
qed

lemma memoConsistent_empty: "memoConsistent fn memoEmpty"
  by (simp add: memoConsistent_def memoEmpty_def)

lemma memoize2_consistent:
  assumes "memoConsistent fn st"
  shows "memoConsistent fn (snd (memoize2 fn st a b))"
proof (cases "memoCache st (a, b)")
  case (Some g)
  with assms show ?thesis by (simp add: memoize2_def)
next
  case None
  from assms have alloc: "\<And>x y g. memoCache st (x, y) = Some g \<Longrightarrow>
      g < length (memoObjects st) \<and> memoObjects st ! g = fn x y"
    and inj: "\<And>k k' g. memoCache st k = Some g \<Longrightarrow> memoCache st k' = Some g \<Longrightarrow> k = k'"
    unfolding memoConsistent_def by blast+
  have st': "snd (memoize2 fn st a b)
      = \<lparr> memoCache = (memoCache st)((a, b) \<mapsto> length (memoObjects st)),
          memoObjects = memoObjects st @ [fn a b] \<rparr>"
    using None by (simp add: memoize2_def Let_def)
  let ?n = "length (memoObjects st)"
  let ?cache = "(memoCache st)((a, b) \<mapsto> ?n)"
  have fresh: "g \<noteq> ?n" if "memoCache st k = Some g" for k g
    using alloc [of "fst k" "snd k" g] that by simp
  have A: "g < Suc ?n \<and> (memoObjects st @ [fn a b]) ! g = fn x y"
    if "?cache (x, y) = Some g" for x y g
  proof (cases "(x, y) = (a, b)")
    case True
    with that have "g = ?n" and "x = a" and "y = b" by simp_all
    then show ?thesis by (simp add: nth_append)
  next
    case False
    with that have "memoCache st (x, y) = Some g" by (simp split: if_splits)
    from alloc [OF this] show ?thesis by (simp add: nth_append)
  qed
  have B: "k = k'" if "?cache k = Some g" and "?cache k' = Some g" for k k' g
  proof (cases "k = (a, b)")
    case True
    with that(1) have g: "g = ?n" by simp
    show ?thesis
    proof (cases "k' = (a, b)")
      case True
      with \<open>k = (a, b)\<close> show ?thesis by simp
    next
      case False
      with that(2) have "memoCache st k' = Some g" by (simp split: if_splits)
      from fresh [OF this] g show ?thesis by simp
    qed
  next
    case False
    with that(1) have k: "memoCache st k = Some g" by (simp split: if_splits)
    show ?thesis
    proof (cases "k' = (a, b)")
      case True
      with that(2) have "g = ?n" by simp
      with fresh [OF k] show ?thesis by simp
    next
      case False
      with that(2) have "memoCache st k' = Some g" by (simp split: if_splits)
      with k show ?thesis by (rule inj)
    qed
  qed
  have "\<forall>x y g. ?cache (x, y) = Some g \<longrightarrow>
      g < length (memoObjects st @ [fn a b]) \<and> (memoObjects st @ [fn a b]) ! g = fn x y"
    using A by (simp only: length_append_singleton) blast
  moreover have "\<forall>k k' g. ?cache k = Some g \<and> ?cache k' = Some g \<longrightarrow> k = k'"
    using B by blast
  ultimately show ?thesis
    unfolding st' memoConsistent_def by (simp only: memo.simps)
qed

lemma run_calls_consistent:
  "memoConsistent (createCollectionGqlType E S) st \<Longrightarrow>
   memoConsistent (createCollectionGqlType E S) (run_calls E S ks st)"
proof (induction ks arbitrary: st)
  case Nil
  then show ?case by simp
next
  case (Cons call ks)
  from Cons.prems
  have "memoConsistent (createCollectionGqlType E S)
      (snd (getCollectionGqlType E S st (fst call) (snd call)))"
    by (simp add: getCollectionGqlType_def memoize2_consistent)
  then show ?case by (simp add: Cons.IH)
qed

lemma getCollectionGqlType_distinct:
  assumes "memoConsistent (createCollectionGqlType E S) st"
    and "(X, C) \<noteq> (X', C')"
  shows "fst (getCollectionGqlType E S (snd (getCollectionGqlType E S st X C)) X' C')
     \<noteq> fst (getCollectionGqlType E S st X C)"
proof -
  let ?st1 = "snd (getCollectionGqlType E S st X C)"
  let ?st2 = "snd (getCollectionGqlType E S ?st1 X' C')"
  have c1: "memoCache ?st1 (X, C) = Some (fst (getCollectionGqlType E S st X C))"
    by (simp add: getCollectionGqlType_def memoize2_cache_after)
  then have "memoCache ?st2 (X, C) = Some (fst (getCollectionGqlType E S st X C))"
    by (simp add: getCollectionGqlType_def memoize2_cache_mono)
  moreover have "memoCache ?st2 (X', C') = Some (fst (getCollectionGqlType E S ?st1 X' C'))"
    by (simp add: getCollectionGqlType_def memoize2_cache_after)
  moreover from assms(1) have "memoConsistent (createCollectionGqlType E S) ?st2"
    by (simp add: getCollectionGqlType_def memoize2_consistent)
  ultimately show ?thesis
    using assms(2) unfolding memoConsistent_def by metis
qed


text \<open>
  Claim C1.  For every build token \<open>X\<close> and collection \<open>C\<close>, a second call of
  \<open>getCollectionGqlType\<close> returns the very address the first call returned and leaves
  the table as it is, whatever calls (\<open>ks\<close>: for related collections, for \<open>C\<close>
  itself, from inside a field thunk) were made in between.  In a table grown from the
  empty one by such calls, that address holds the type built for \<open>X\<close> and \<open>C\<close>.
\<close>

theorem getCollectionGqlType_identical:
  "getCollectionGqlType E S (run_calls E S ks (snd (getCollectionGqlType E S st X C))) X C
     = (fst (getCollectionGqlType E S st X C),
        run_calls E S ks (snd (getCollectionGqlType E S st X C)))
   \<and> fst (getCollectionGqlType E S (run_calls E S pre memoEmpty) X C)
       < length (memoObjects (run_calls E S ks
           (snd (getCollectionGqlType E S (run_calls E S pre memoEmpty) X C))))
   \<and> memoObjects (run_calls E S ks
         (snd (getCollectionGqlType E S (run_calls E S pre memoEmpty) X C)))
       ! fst (getCollectionGqlType E S (run_calls E S pre memoEmpty) X C)
      = createCollectionGqlType E S X C"
proof -
  have hit: "memoCache (run_calls E S ks (snd (getCollectionGqlType E S st X C))) (X, C)
      = Some (fst (getCollectionGqlType E S st X C))" for st
  proof -
    have "memoCache (snd (getCollectionGqlType E S st X C)) (X, C)
        = Some (fst (getCollectionGqlType E S st X C))"
      by (simp add: getCollectionGqlType_def memoize2_cache_after)
    then show ?thesis by (rule run_calls_cache_mono)
  qed
  have same: "getCollectionGqlType E S (run_calls E S ks (snd (getCollectionGqlType E S st X C))) X C
     = (fst (getCollectionGqlType E S st X C),
        run_calls E S ks (snd (getCollectionGqlType E S st X C)))"
    unfolding getCollectionGqlType_def [of E S "run_calls E S ks (snd (getCollectionGqlType E S st X C))"]
    using hit [of st] by (rule memoize2_hit)
  let ?st0 = "run_calls E S pre memoEmpty"
  have "memoConsistent (createCollectionGqlType E S) ?st0"
    by (rule run_calls_consistent) (rule memoConsistent_empty)
  then have "memoConsistent (createCollectionGqlType E S) (snd (getCollectionGqlType E S ?st0 X C))"
    by (simp add: getCollectionGqlType_def memoize2_consistent)
  then have "memoConsistent (createCollectionGqlType E S)
      (run_calls E S ks (snd (getCollectionGqlType E S ?st0 X C)))"
    by (rule run_calls_consistent)
  with hit [of ?st0]
  have "fst (getCollectionGqlType E S ?st0 X C)
       < length (memoObjects (run_calls E S ks (snd (getCollectionGqlType E S ?st0 X C))))
     \<and> memoObjects (run_calls E S ks (snd (getCollectionGqlType E S ?st0 X C)))
       ! fst (getCollectionGqlType E S ?st0 X C)
      = createCollectionGqlType E S X C"
    unfolding memoConsistent_def by blast
  with same show ?thesis by simp
qed

lemma ex_first_call:
  "getCollectionGqlType exCollab exStore memoEmpty 7 10
     = (0, \<lparr> memoCache = (\<lambda>k. if k = (7, 10) then Some 0 else None),
             memoObjects = [createCollectionGqlType exCollab exStore 7 10] \<rparr>)"
  by (auto simp: getCollectionGqlType_def memoize2_def memoEmpty_def)

theorem getCollectionGqlType_identical_witness:
  "fst (getCollectionGqlType exCollab exStore memoEmpty 7 10) = 0
   \<and> fst (getCollectionGqlType exCollab exStore memoEmpty 7 11) = 0
   \<and> fst (getCollectionGqlType exCollab exStore
        (snd (getCollectionGqlType exCollab exStore memoEmpty 7 10)) 7 11) = 1
   \<and> fst (getCollectionGqlType exCollab exStore
        (run_calls exCollab exStore [(7, 11), (7, 10), (7, 12)]
           (snd (getCollectionGqlType exCollab exStore memoEmpty 7 10))) 7 10) = 0"
proof -
  have a: "fst (getCollectionGqlType exCollab exStore memoEmpty 7 10) = 0"
    by (simp add: ex_first_call)
  have b: "fst (getCollectionGqlType exCollab exStore memoEmpty 7 11) = 0"
    by (simp add: getCollectionGqlType_def memoize2_def memoEmpty_def)
  have c: "fst (getCollectionGqlType exCollab exStore
        (snd (getCollectionGqlType exCollab exStore memoEmpty 7 10)) 7 11) = 1"
    by (simp add: ex_first_call) (simp add: getCollectionGqlType_def memoize2_def)
  from getCollectionGqlType_identical
    [of exCollab exStore "[(7, 11), (7, 10), (7, 12)]" memoEmpty 7 10] a
  have d: "fst (getCollectionGqlType exCollab exStore
        (run_calls exCollab exStore [(7, 11), (7, 10), (7, 12)]
           (snd (getCollectionGqlType exCollab exStore memoEmpty 7 10))) 7 10) = 0"
    by simp
  from a b c d show ?thesis by simp
qed

end
